theory Spec2Isabelle
  imports Main
begin

section \<open>Python values and their text\<close>

text \<open>
  The values a field can hold in this development: \<open>None\<close>, booleans, unbounded integers
  and strings. \<open>py_str\<close> is Python's \<open>str()\<close> on them: a string is rendered as its own
  characters, without quotes.
\<close>

datatype pyval = PNone | PBool bool | PInt int | PStr string

datatype error = FrozenError | AttributeError | TypeError | SyntaxError | NameError | KeyError

definition digit_char :: "nat \<Rightarrow> char" where
  "digit_char d = char_of (48 + d)"

function string_of_nat :: "nat \<Rightarrow> string" where
  "string_of_nat n = (if n < 10 then [digit_char n] else string_of_nat (n div 10) @ [digit_char (n mod 10)])"
  by pat_completeness auto
termination
  by (relation "measure id") auto

fun py_str :: "pyval \<Rightarrow> string" where
  "py_str PNone = ''None''"
| "py_str (PBool b) = (if b then ''True'' else ''False'')"
| "py_str (PInt i) = (if i < 0 then ''-'' @ string_of_nat (nat (- i)) else string_of_nat (nat i))"
| "py_str (PStr s) = s"

text \<open>
  \<open>template.format(a, b, ...)\<close> for templates whose replacement fields are all \<open>{}\<close>:
  the fields are filled from left to right with arguments that are already text.
  (Python raises when the arguments run out; every call below supplies as many as the
  template has fields.)
\<close>

fun py_format :: "string \<Rightarrow> string list \<Rightarrow> string" where
  "py_format (c # d # cs) args =
     (if c = CHR ''{'' \<and> d = CHR ''}''
      then (case args of [] \<Rightarrow> c # d # py_format cs [] | a # as \<Rightarrow> a @ py_format cs as)
      else c # py_format (d # cs) args)"
| "py_format cs args = cs"

text \<open>\<open>sep.join(parts)\<close>.\<close>

fun py_join :: "string \<Rightarrow> string list \<Rightarrow> string" where
  "py_join sep [] = []"
| "py_join sep [x] = x"
| "py_join sep (x # y # ys) = x @ sep @ py_join sep (y # ys)"

text \<open>
  A dict is an association list in insertion order with distinct keys: \<open>d[k] = v\<close>
  replaces the value of an existing key where it stands and appends a new key.
\<close>

fun setitem :: "'k \<Rightarrow> 'v \<Rightarrow> ('k \<times> 'v) list \<Rightarrow> ('k \<times> 'v) list" where
  "setitem k v [] = [(k, v)]"
| "setitem k v (p # ps) = (if fst p = k then (k, v) # ps else p # setitem k v ps)"

section \<open>Objects of the program\<close>

text \<open>
  The body of a generated \<open>__init__\<close> is built from two kinds of statement:
  \<open>object.__setattr__(self, "f", v)\<close> and \<open>self.__post_init__()\<close>. A compiled function
  has its parameters after \<open>self\<close>, each with its default value if it has one (Python
  evaluates the default once, when the \<open>def\<close> runs), and its statements.
\<close>

datatype stmt = SetAttr string string | CallPostInit

record pyfunc =
  fn_params :: "(string \<times> pyval option) list"
  fn_body :: "stmt list"

text \<open>
  The functions that can be attributes of a class: a generated \<open>__init__\<close>, the three
  module-level functions \<open>_repr\<close>, \<open>_eq\<close> and \<open>_setattr\<close>, and a method written by the
  user that takes \<open>self\<close> only (such as \<open>__post_init__\<close>), named by a number.
\<close>

datatype func = InitFn pyfunc | ReprFn | EqFn | SetattrFn | UserFn nat

text \<open>
  What an attribute lookup on a class can give: a plain value, the field registry
  (\<open>dict[str, _FieldsDict]\<close>: field name to type hint and default value), the property
  made by \<open>_create_property\<close> (it remembers the attribute name its getter reads), or a
  function. A type hint is carried as text and never looked at.
\<close>

datatype attr =
    Val pyval
  | Fields "(string \<times> string \<times> attr) list"
  | Property string
  | Func func

type_synonym fields_dict = "(string \<times> string \<times> attr) list"

text \<open>
  \<open>str()\<close> of an attribute. Python prints a property or a function as a type name and an
  address between angle brackets, and a registry as a dict display of its type hints;
  none of these is looked at by the program, and the model writes one fixed text for
  each kind.
\<close>

fun attr_str :: "attr \<Rightarrow> string" where
  "attr_str (Val v) = py_str v"
| "attr_str (Fields r) = ''<dict>''"
| "attr_str (Property a) = ''<property object>''"
| "attr_str (Func f) = ''<function>''"

text \<open>
  A class: its name, the globals of the module it is declared in (names bound to plain
  values), \<open>__annotations__\<close> (field name to type hint, in declaration order) and the
  attributes \<open>getattr(cls, ...)\<close> finds. \<open>setattr(cls, name, v)\<close> writes the last.
\<close>

record pycls =
  cls_name :: string
  cls_module :: "(string \<times> pyval) list"
  annotations :: "(string \<times> string) list"
  namespace :: "(string \<times> attr) list"

definition cls_getattr :: "pycls \<Rightarrow> string \<Rightarrow> attr \<Rightarrow> attr" where
  "cls_getattr c name dflt = (case map_of (namespace c) name of Some a \<Rightarrow> a | None \<Rightarrow> dflt)"

definition cls_setattr :: "pycls \<Rightarrow> string \<Rightarrow> attr \<Rightarrow> pycls" where
  "cls_setattr c name a = c\<lparr>namespace := setitem name a (namespace c)\<rparr>"

text \<open>Truth value of an object, as \<open>if x:\<close> tests it.\<close>

fun truthy :: "attr \<Rightarrow> bool" where
  "truthy (Val PNone) = False"
| "truthy (Val (PBool b)) = b"
| "truthy (Val (PInt i)) = (i \<noteq> 0)"
| "truthy (Val (PStr s)) = (s \<noteq> [])"
| "truthy (Fields r) = (r \<noteq> [])"
| "truthy (Property a) = True"
| "truthy (Func f) = True"

text \<open>
  Classes are objects that are changed in place, so they live in a store and are named
  by their address. An instance has the address of its class and its own attribute dict.
\<close>

type_synonym heap = "nat \<Rightarrow> pycls"

record pyinst =
  inst_cls :: nat
  inst_dict :: "(string \<times> pyval) list"

datatype pyobj = Inst pyinst | Plain pyval

section \<open>The source, function by function\<close>

text \<open>
  Each function of \<open>datacls.py\<close> keeps its name, without the leading underscore
  (\<open>_make_datacls\<close> is \<open>make_datacls\<close>); \<open>_repr\<close>, \<open>_eq\<close> and \<open>_setattr\<close> are
  \<open>datacls_repr\<close>, \<open>datacls_eq\<close> and \<open>datacls_setattr\<close>.
\<close>

subsection \<open>\<open>_create_func_signature\<close>\<close>

definition NotDefaultValue :: attr where
  "NotDefaultValue = Val (PStr ''_NotDefaultValue'')"

definition FUNC_SIGNATURE_TEMPLATE :: string where
  "FUNC_SIGNATURE_TEMPLATE = ''def {} (self, ''"

text \<open>
  The loop over \<open>args.items()\<close>, carrying the two lists of \<open>args_value\<close>:
  \<open>with_default_value\<close> and \<open>no_default_value\<close>. \<open>arg_template[:-5]\<close> cuts the last five
  characters off the template.
\<close>

fun signature_args :: "fields_dict \<Rightarrow> string list \<times> string list \<Rightarrow> string list \<times> string list" where
  "signature_args [] acc = acc"
| "signature_args ((arg_name, type_hint, default_value) # rest) (with_default, no_default) =
     (let arg_template = ''{} = {}'' in
      if default_value = NotDefaultValue
      then (let arg_template = take (length arg_template - 5) arg_template in
            signature_args rest (with_default, no_default @ [py_format arg_template [arg_name]]))
      else signature_args rest
             (with_default @ [py_format arg_template [arg_name, attr_str default_value]], no_default))"

definition create_func_signature :: "string \<Rightarrow> fields_dict \<Rightarrow> string" where
  "create_func_signature func_name args =
     (let (with_default, no_default) = signature_args args ([], []) in
      py_format FUNC_SIGNATURE_TEMPLATE [func_name] @ py_join '', '' (no_default @ with_default) @ ''):'')"

subsection \<open>\<open>exec\<close> on the generated text\<close>

text \<open>
  \<open>_create_fn\<close> hands the text \<open>signature + body\<close> to Python's \<open>exec\<close>. The model reads
  the texts this program can generate: a header \<open>def NAME (self, p, ..., q = EXPR, ...):\<close>
  and, on the following lines, statements of the two kinds above, each after one tab.
  A default expression is \<open>None\<close>, \<open>True\<close>, \<open>False\<close>, a decimal integer or a name of the
  module; any other text counts as a syntax error. Python's rules on a \<open>def\<close> are kept:
  parameter names are distinct identifiers other than \<open>self\<close>, no parameter without a
  default follows one with a default, and the body has at least one statement.
\<close>

definition strip_prefix :: "string \<Rightarrow> string \<Rightarrow> string option" where
  "strip_prefix p s = (if take (length p) s = p then Some (drop (length p) s) else None)"

definition digit :: "char \<Rightarrow> bool" where
  "digit c = (let n = (of_char c :: nat) in 48 \<le> n \<and> n \<le> 57)"

definition ident_char :: "char \<Rightarrow> bool" where
  "ident_char c = (let n = (of_char c :: nat) in
     (48 \<le> n \<and> n \<le> 57) \<or> (65 \<le> n \<and> n \<le> 90) \<or> n = 95 \<or> (97 \<le> n \<and> n \<le> 122))"

definition is_identifier :: "string \<Rightarrow> bool" where
  "is_identifier s = (case s of [] \<Rightarrow> False | c # cs \<Rightarrow> \<not> digit c \<and> list_all ident_char s)"

definition is_decimal :: "string \<Rightarrow> bool" where
  "is_decimal s = (case s of [] \<Rightarrow> False
     | c # cs \<Rightarrow> list_all digit s \<and> (c \<noteq> CHR ''0'' \<or> list_all (\<lambda>d. d = CHR ''0'') cs))"

definition decimal_value :: "string \<Rightarrow> nat" where
  "decimal_value s = foldl (\<lambda>acc c. 10 * acc + (of_char c - 48)) 0 s"

definition is_literal :: "string \<Rightarrow> bool" where
  "is_literal e = (e = ''None'' \<or> e = ''True'' \<or> e = ''False'' \<or> is_decimal e
     \<or> (case e of [] \<Rightarrow> False | c # cs \<Rightarrow> c = CHR ''-'' \<and> is_decimal cs))"

definition expr_ok :: "string \<Rightarrow> bool" where
  "expr_ok e = (is_literal e \<or> is_identifier e)"

definition py_eval :: "(string \<times> pyval) list \<Rightarrow> string \<Rightarrow> error + pyval" where
  "py_eval globals e =
     (if e = ''None'' then Inr PNone
      else if e = ''True'' then Inr (PBool True)
      else if e = ''False'' then Inr (PBool False)
      else if is_decimal e then Inr (PInt (int (decimal_value e)))
      else if is_literal e then Inr (PInt (- int (decimal_value (tl e))))
      else if is_identifier e
      then (case map_of globals e of Some v \<Rightarrow> Inr v | None \<Rightarrow> Inl NameError)
      else Inl SyntaxError)"

text \<open>
  The parameter list after \<open>(self, \<close>: names, each with the text of its default if it
  has one, up to the closing parenthesis. The first argument bounds the number of
  parameters read by the length of the text.
\<close>

fun parse_params :: "nat \<Rightarrow> string \<Rightarrow> ((string \<times> string option) list \<times> string) option" where
  "parse_params 0 s = None"
| "parse_params (Suc n) s =
     (let name = takeWhile ident_char s; r = dropWhile ident_char s in
      if name = [] then Some ([], s)
      else
        (let (p, r1) = (case strip_prefix '' = '' r of
                          Some r0 \<Rightarrow> ((name, Some (takeWhile (\<lambda>c. c \<notin> set '',)\<newline>'') r0)),
                                      dropWhile (\<lambda>c. c \<notin> set '',)\<newline>'') r0)
                        | None \<Rightarrow> ((name, None), r))
         in case strip_prefix '', '' r1 of
              Some r2 \<Rightarrow> (case parse_params n r2 of None \<Rightarrow> None | Some (ps, r3) \<Rightarrow> Some (p # ps, r3))
            | None \<Rightarrow> Some ([p], r1)))"

fun defaults_last :: "(string \<times> string option) list \<Rightarrow> bool" where
  "defaults_last [] = True"
| "defaults_last ((n, None) # ps) = defaults_last ps"
| "defaults_last ((n, Some d) # ps) = list_all (\<lambda>p. snd p \<noteq> None) ps"

definition params_ok :: "(string \<times> string option) list \<Rightarrow> bool" where
  "params_ok ps = (distinct (''self'' # map fst ps) \<and> list_all (\<lambda>p. is_identifier (fst p)) ps
     \<and> defaults_last ps \<and> list_all (\<lambda>p. case snd p of None \<Rightarrow> True | Some d \<Rightarrow> expr_ok d) ps)"

fun split_on :: "char \<Rightarrow> string \<Rightarrow> string \<Rightarrow> string list" where
  "split_on c [] cur = [cur]"
| "split_on c (x # xs) cur = (if x = c then cur # split_on c xs [] else split_on c xs (cur @ [x]))"

definition parse_stmt :: "string \<Rightarrow> stmt option" where
  "parse_stmt line =
     (if line = ''self.__post_init__()'' then Some CallPostInit
      else case strip_prefix ''object.__setattr__(self, \"'' line of
             None \<Rightarrow> None
           | Some r \<Rightarrow>
               (let f = takeWhile (\<lambda>c. c \<noteq> CHR 0x22) r in
                case strip_prefix ''\", '' (dropWhile (\<lambda>c. c \<noteq> CHR 0x22) r) of
                  None \<Rightarrow> None
                | Some r1 \<Rightarrow>
                    (let v = takeWhile ident_char r1 in
                     if is_identifier v \<and> dropWhile ident_char r1 = '')'' then Some (SetAttr f v)
                     else None)))"

fun parse_lines :: "string list \<Rightarrow> stmt list option" where
  "parse_lines [] = Some []"
| "parse_lines (l # ls) =
     (if l = [] then parse_lines ls
      else case strip_prefix [CHR 0x09] l of
             None \<Rightarrow> None
           | Some t \<Rightarrow> (case parse_stmt t of
                          None \<Rightarrow> None
                        | Some st \<Rightarrow> (case parse_lines ls of None \<Rightarrow> None | Some sts \<Rightarrow> Some (st # sts))))"

fun eval_defaults :: "(string \<times> pyval) list \<Rightarrow> (string \<times> string option) list
    \<Rightarrow> error + (string \<times> pyval option) list" where
  "eval_defaults g [] = Inr []"
| "eval_defaults g ((n, None) # ps) =
     (case eval_defaults g ps of Inl e \<Rightarrow> Inl e | Inr qs \<Rightarrow> Inr ((n, None) # qs))"
| "eval_defaults g ((n, Some d) # ps) =
     (case py_eval g d of
        Inl e \<Rightarrow> Inl e
      | Inr v \<Rightarrow> (case eval_defaults g ps of Inl e \<Rightarrow> Inl e | Inr qs \<Rightarrow> Inr ((n, Some v) # qs)))"

definition py_exec :: "(string \<times> pyval) list \<Rightarrow> string \<Rightarrow> error + (string \<times> pyfunc)" where
  "py_exec globals src =
     (case strip_prefix ''def '' src of
        None \<Rightarrow> Inl SyntaxError
      | Some r0 \<Rightarrow>
          (let name = takeWhile ident_char r0 in
           case strip_prefix '' (self, '' (dropWhile ident_char r0) of
             None \<Rightarrow> Inl SyntaxError
           | Some r1 \<Rightarrow>
               (case parse_params (Suc (length r1)) r1 of
                  None \<Rightarrow> Inl SyntaxError
                | Some (ps, r2) \<Rightarrow>
                    (case strip_prefix ''):'' r2 of
                       None \<Rightarrow> Inl SyntaxError
                     | Some r3 \<Rightarrow>
                         (case split_on CHR 0x0A r3 [] of
                            [] \<Rightarrow> Inl SyntaxError
                          | first # ls \<Rightarrow>
                              (case parse_lines ls of
                                 None \<Rightarrow> Inl SyntaxError
                               | Some body \<Rightarrow>
                                   if first \<noteq> [] \<or> body = [] \<or> \<not> is_identifier name \<or> \<not> params_ok ps
                                   then Inl SyntaxError
                                   else (case eval_defaults globals ps of
                                           Inl e \<Rightarrow> Inl e
                                         | Inr qs \<Rightarrow> Inr (name, \<lparr>fn_params = qs, fn_body = body\<rparr>))))))))"

subsection \<open>\<open>_create_fn\<close>, \<open>_create_property\<close>, \<open>_read_annotations\<close>\<close>

text \<open>
  \<open>exec(signature + body, cls_module_globals, function)\<close> and then
  \<open>function[func_name]\<close>, which is a \<open>KeyError\<close> if the text defined another name.
\<close>

definition create_fn :: "string \<Rightarrow> string \<Rightarrow> string \<Rightarrow> pycls \<Rightarrow> error + pyfunc" where
  "create_fn func_name signature body cls =
     (let cls_module_globals = cls_module cls in
      case py_exec cls_module_globals (signature @ body) of
        Inl e \<Rightarrow> Inl e
      | Inr (name, f) \<Rightarrow> if name = func_name then Inr f else Inl KeyError)"

definition create_property :: "string \<Rightarrow> attr" where
  "create_property attr_name = Property attr_name"

fun read_annotations_loop :: "pycls \<Rightarrow> (string \<times> string) list \<Rightarrow> fields_dict \<Rightarrow> fields_dict" where
  "read_annotations_loop cls [] flds = flds"
| "read_annotations_loop cls ((name, type_hint) # rest) flds =
     read_annotations_loop cls rest
       (setitem name (type_hint, cls_getattr cls name NotDefaultValue) flds)"

definition read_annotations :: "pycls \<Rightarrow> fields_dict" where
  "read_annotations cls = read_annotations_loop cls (annotations cls) []"

subsection \<open>\<open>_create_and_add_init\<close> and the other installers\<close>

definition setattr_cls :: "nat \<Rightarrow> string \<Rightarrow> attr \<Rightarrow> heap \<Rightarrow> heap" where
  "setattr_cls cls name a h = h(cls := cls_setattr (h cls) name a)"

text \<open>
  \<open>cls._fields\<close> where a dict is needed (\<open>args.items()\<close>): an \<open>AttributeError\<close> when the
  attribute is missing or is not a dict.
\<close>

definition cls_fields :: "pycls \<Rightarrow> error + fields_dict" where
  "cls_fields c = (case map_of (namespace c) ''_fields'' of Some (Fields r) \<Rightarrow> Inr r | _ \<Rightarrow> Inl AttributeError)"

fun init_body_loop :: "string \<Rightarrow> string list \<Rightarrow> string \<Rightarrow> string" where
  "init_body_loop instance_attr_template [] init_body = init_body"
| "init_body_loop instance_attr_template (field # rest) init_body =
     init_body_loop instance_attr_template rest
       (init_body @ [CHR 0x09] @ py_format instance_attr_template [field, field] @ ''\<newline>'')"

definition create_and_add_init :: "attr \<Rightarrow> nat \<Rightarrow> heap \<Rightarrow> error + heap" where
  "create_and_add_init post_init cls h =
     (case cls_fields (h cls) of
        Inl e \<Rightarrow> Inl e
      | Inr flds \<Rightarrow>
          (let signature = create_func_signature ''__init__'' flds;
               instance_attr_template = ''object.__setattr__(self, \"{}\", {})'';
               init_body = init_body_loop instance_attr_template (map fst flds) ''\<newline>'';
               init_body = (if truthy post_init then init_body @ [CHR 0x09] @ ''self.__post_init__()''
                            else init_body)
           in case create_fn ''__init__'' signature init_body (h cls) of
                Inl e \<Rightarrow> Inl e
              | Inr init \<Rightarrow> Inr (setattr_cls cls ''__init__'' (Func (InitFn init)) h)))"

definition create_and_add_repr :: "nat \<Rightarrow> heap \<Rightarrow> heap" where
  "create_and_add_repr cls h = setattr_cls cls ''__repr__'' (Func ReprFn) h"

definition create_and_add_eq :: "nat \<Rightarrow> heap \<Rightarrow> heap" where
  "create_and_add_eq cls h = setattr_cls cls ''__eq__'' (Func EqFn) h"

definition make_frozen :: "nat \<Rightarrow> heap \<Rightarrow> heap" where
  "make_frozen cls h = setattr_cls cls ''__setattr__'' (Func SetattrFn) h"

subsection \<open>\<open>_make_datacls\<close> and \<open>datacls\<close>\<close>

text \<open>
  The result is what the call returns (the class, by its address) or raises, and the
  store it leaves: when \<open>_create_and_add_init\<close> raises, \<open>_fields\<close> and \<open>fields\<close> have
  already been written.
\<close>

definition make_datacls :: "nat \<Rightarrow> bool \<Rightarrow> bool \<Rightarrow> bool \<Rightarrow> bool \<Rightarrow> heap \<Rightarrow> (error + nat) \<times> heap" where
  "make_datacls cls init repr eq frozen h =
     (let h1 = setattr_cls cls ''_fields'' (Fields (read_annotations (h cls))) h;
          h2 = setattr_cls cls ''fields'' (create_property ''_fields'') h1
      in case (if init
               then (let post_init = cls_getattr (h2 cls) ''__post_init__'' (Val (PBool False))
                     in create_and_add_init post_init cls h2)
               else Inr h2) of
           Inl e \<Rightarrow> (Inl e, h2)
         | Inr h3 \<Rightarrow>
             (let h4 = (if repr then create_and_add_repr cls h3 else h3);
                  h5 = (if eq then create_and_add_eq cls h4 else h4);
                  h6 = (if frozen then make_frozen cls h5 else h5)
              in (Inr cls, h6)))"



subsection \<open>Attribute access on instances\<close>

text \<open>
  \<open>getattr(self, name)\<close>: a property of the class comes first and runs its getter, which
  is \<open>getattr(self, attr_name)\<close>; then the instance's own dict, then the class. The only
  property this program makes reads \<open>_fields\<close>, which is never itself a property, so the
  getter's own lookup is the plain one.
\<close>

definition plain_getattr :: "heap \<Rightarrow> pyinst \<Rightarrow> string \<Rightarrow> error + attr" where
  "plain_getattr h self name =
     (case map_of (inst_dict self) name of
        Some v \<Rightarrow> Inr (Val v)
      | None \<Rightarrow> (case map_of (namespace (h (inst_cls self))) name of
                   Some a \<Rightarrow> Inr a
                 | None \<Rightarrow> Inl AttributeError))"

definition inst_getattr :: "heap \<Rightarrow> pyinst \<Rightarrow> string \<Rightarrow> error + attr" where
  "inst_getattr h self name =
     (case map_of (namespace (h (inst_cls self))) name of
        Some (Property attr_name) \<Rightarrow> plain_getattr h self attr_name
      | _ \<Rightarrow> plain_getattr h self name)"

text \<open>
  \<open>object.__setattr__(self, name, value)\<close>: a property without a setter refuses the
  write; otherwise the value goes into the instance's dict.
\<close>

definition object_setattr :: "heap \<Rightarrow> pyinst \<Rightarrow> string \<Rightarrow> pyval \<Rightarrow> error + pyinst" where
  "object_setattr h self name v =
     (case map_of (namespace (h (inst_cls self))) name of
        Some (Property a) \<Rightarrow> Inl AttributeError
      | _ \<Rightarrow> Inr (self\<lparr>inst_dict := setitem name v (inst_dict self)\<rparr>))"

definition datacls_setattr :: "pyinst \<Rightarrow> string \<Rightarrow> pyval \<Rightarrow> error + pyinst" where
  "datacls_setattr self field v = Inl FrozenError"

text \<open>
  The statement \<open>self.name = value\<close> calls the \<open>__setattr__\<close> of the class: \<open>_setattr\<close>
  when \<open>_make_frozen\<close> has installed it, \<open>object.__setattr__\<close> when the class has none of
  its own. Any other attribute of that name in this model cannot take the three
  arguments.
\<close>

definition py_setattr :: "heap \<Rightarrow> pyinst \<Rightarrow> string \<Rightarrow> pyval \<Rightarrow> error + pyinst" where
  "py_setattr h self name v =
     (case map_of (namespace (h (inst_cls self))) ''__setattr__'' of
        None \<Rightarrow> object_setattr h self name v
      | Some (Func SetattrFn) \<Rightarrow> datacls_setattr self name v
      | Some _ \<Rightarrow> Inl TypeError)"

subsection \<open>\<open>asdict\<close>, \<open>_repr\<close>, \<open>_eq\<close>\<close>

text \<open>
  \<open>for field in x\<close>: a dict gives its keys in order, a string its characters; the other
  objects of the model are not iterable.
\<close>

fun py_iter :: "attr \<Rightarrow> error + string list" where
  "py_iter (Fields r) = Inr (map fst r)"
| "py_iter (Val (PStr s)) = Inr (map (\<lambda>c. [c]) s)"
| "py_iter _ = Inl TypeError"

fun asdict_loop :: "heap \<Rightarrow> pyinst \<Rightarrow> string list \<Rightarrow> (string \<times> attr) list \<Rightarrow> error + (string \<times> attr) list" where
  "asdict_loop h self [] result = Inr result"
| "asdict_loop h self (field # rest) result =
     (case inst_getattr h self field of
        Inl e \<Rightarrow> Inl e
      | Inr a \<Rightarrow> asdict_loop h self rest (setitem field a result))"

text \<open>A plain value (\<open>None\<close>, a boolean, an integer, a string) has no attribute \<open>fields\<close>.\<close>

fun asdict :: "heap \<Rightarrow> pyobj \<Rightarrow> error + (string \<times> attr) list" where
  "asdict h (Plain v) = Inl AttributeError"
| "asdict h (Inst datacls_instance) =
     (case inst_getattr h datacls_instance ''fields'' of
        Inl e \<Rightarrow> Inl e
      | Inr flds \<Rightarrow> (case py_iter flds of
                      Inl e \<Rightarrow> Inl e
                    | Inr names \<Rightarrow> asdict_loop h datacls_instance names []))"

fun repr_loop :: "heap \<Rightarrow> pyinst \<Rightarrow> string list \<Rightarrow> string \<Rightarrow> error + string" where
  "repr_loop h self [] constructor = Inr (constructor @ '')'')"
| "repr_loop h self (field # rest) constructor =
     (case inst_getattr h self field of
        Inl e \<Rightarrow> Inl e
      | Inr a \<Rightarrow> repr_loop h self rest (constructor @ py_format ''{} = {}, '' [field, attr_str a]))"

definition datacls_repr :: "heap \<Rightarrow> pyinst \<Rightarrow> error + string" where
  "datacls_repr h self =
     (let cls_name = cls_name (h (inst_cls self));
          constructor = cls_name @ ''(''
      in case inst_getattr h self ''_fields'' of
           Inl e \<Rightarrow> Inl e
         | Inr flds \<Rightarrow> (case py_iter flds of
                         Inl e \<Rightarrow> Inl e
                       | Inr names \<Rightarrow> repr_loop h self names constructor))"

text \<open>
  \<open>==\<close> on the values of the model: a boolean is the integer 0 or 1, values of
  different kinds are otherwise unequal, and the remaining objects are compared as they
  stand. Two dicts are equal when they have the same number of keys and every key of the
  first is in the second with an equal value.
\<close>

fun py_eq :: "attr \<Rightarrow> attr \<Rightarrow> bool" where
  "py_eq (Val (PBool b)) (Val (PInt i)) = ((if b then 1 else 0) = i)"
| "py_eq (Val (PInt i)) (Val (PBool b)) = (i = (if b then 1 else 0))"
| "py_eq a b = (a = b)"

definition dict_eq :: "(string \<times> attr) list \<Rightarrow> (string \<times> attr) list \<Rightarrow> bool" where
  "dict_eq a b = (length a = length b \<and>
     list_all (\<lambda>(k, v). case map_of b k of None \<Rightarrow> False | Some w \<Rightarrow> py_eq v w) a)"

definition datacls_eq :: "heap \<Rightarrow> pyinst \<Rightarrow> pyobj \<Rightarrow> error + bool" where
  "datacls_eq h self other =
     (case asdict h (Inst self) of
        Inl e \<Rightarrow> Inl e
      | Inr a \<Rightarrow> (case asdict h other of Inl e \<Rightarrow> Inl e | Inr b \<Rightarrow> Inr (dict_eq a b)))"

subsection \<open>Calling the class\<close>

text \<open>
  A call \<open>f(self, *args, **kwargs)\<close> of a compiled function binds the positional
  arguments to the first parameters, the keyword arguments by name, and fills what is
  left from the defaults. Too many positional arguments, a keyword that names no
  remaining parameter, and a parameter left without a value are each a \<open>TypeError\<close>.
\<close>

fun bind_rest :: "(string \<times> pyval option) list \<Rightarrow> (string \<times> pyval) list \<Rightarrow> error + (string \<times> pyval) list" where
  "bind_rest [] kwargs = Inr []"
| "bind_rest ((n, d) # ps) kwargs =
     (case (case map_of kwargs n of Some v \<Rightarrow> Some v | None \<Rightarrow> d) of
        None \<Rightarrow> Inl TypeError
      | Some v \<Rightarrow> (case bind_rest ps kwargs of Inl e \<Rightarrow> Inl e | Inr env \<Rightarrow> Inr ((n, v) # env)))"

definition bind_args :: "(string \<times> pyval option) list \<Rightarrow> pyval list \<Rightarrow> (string \<times> pyval) list
    \<Rightarrow> error + (string \<times> pyval) list" where
  "bind_args params args kwargs =
     (let rest = drop (length args) params in
      if length params < length args \<or> \<not> distinct (map fst kwargs)
         \<or> \<not> list_all (\<lambda>k. k \<in> set (map fst rest)) (map fst kwargs)
      then Inl TypeError
      else (case bind_rest rest kwargs of
              Inl e \<Rightarrow> Inl e
            | Inr env \<Rightarrow> Inr (zip (map fst params) args @ env)))"

text \<open>
  The behaviour of the user's methods is a parameter \<open>user\<close>: what the method with a given
  number does to the instance it is called on, in a given store. \<open>self.name()\<close> looks the
  attribute up and calls it; only a user's method can be called with no argument here.
\<close>

type_synonym user_code = "nat \<Rightarrow> heap \<Rightarrow> pyinst \<Rightarrow> error + pyinst"

definition call_method :: "user_code \<Rightarrow> heap \<Rightarrow> pyinst \<Rightarrow> string \<Rightarrow> error + pyinst" where
  "call_method user h self name =
     (case inst_getattr h self name of
        Inl e \<Rightarrow> Inl e
      | Inr (Func (UserFn n)) \<Rightarrow> user n h self
      | Inr _ \<Rightarrow> Inl TypeError)"

text \<open>A name in the body is a parameter, or else a global of the module.\<close>

definition lookup_name :: "heap \<Rightarrow> pyinst \<Rightarrow> (string \<times> pyval) list \<Rightarrow> string \<Rightarrow> error + pyval" where
  "lookup_name h self env v =
     (case map_of env v of
        Some x \<Rightarrow> Inr x
      | None \<Rightarrow> (case map_of (cls_module (h (inst_cls self))) v of
                   Some x \<Rightarrow> Inr x
                 | None \<Rightarrow> Inl NameError))"

fun run_body :: "user_code \<Rightarrow> heap \<Rightarrow> (string \<times> pyval) list \<Rightarrow> stmt list \<Rightarrow> pyinst \<Rightarrow> error + pyinst" where
  "run_body user h env [] self = Inr self"
| "run_body user h env (SetAttr f v # rest) self =
     (case lookup_name h self env v of
        Inl e \<Rightarrow> Inl e
      | Inr x \<Rightarrow> (case object_setattr h self f x of
                   Inl e \<Rightarrow> Inl e
                 | Inr self' \<Rightarrow> run_body user h env rest self'))"
| "run_body user h env (CallPostInit # rest) self =
     (case call_method user h self ''__post_init__'' of
        Inl e \<Rightarrow> Inl e
      | Inr self' \<Rightarrow> run_body user h env rest self')"

text \<open>
  \<open>cls(*args, **kwargs)\<close>: a fresh instance with an empty dict is passed to \<open>__init__\<close>.
  Without an \<open>__init__\<close> of its own the class has \<open>object\<close>'s, which takes no argument.
\<close>

definition construct :: "user_code \<Rightarrow> heap \<Rightarrow> nat \<Rightarrow> pyval list \<Rightarrow> (string \<times> pyval) list \<Rightarrow> error + pyinst" where
  "construct user h cls args kwargs =
     (let self = \<lparr>inst_cls = cls, inst_dict = []\<rparr> in
      case map_of (namespace (h cls)) ''__init__'' of
        None \<Rightarrow> if args = [] \<and> kwargs = [] then Inr self else Inl TypeError
      | Some (Func (InitFn f)) \<Rightarrow>
          (case bind_args (fn_params f) args kwargs of
             Inl e \<Rightarrow> Inl e
           | Inr env \<Rightarrow> run_body user h env (fn_body f) self)
      | Some (Func (UserFn n)) \<Rightarrow> if args = [] \<and> kwargs = [] then user n h self else Inl TypeError
      | Some _ \<Rightarrow> Inl TypeError)"

section \<open>Notions used in the statements\<close>

text \<open>
  The fields of a registry that count as having no default (their \<open>default_value\<close> is
  equal to the marker) and those that have one, each in registry order; the latter with
  the text of the default.
\<close>

definition required :: "fields_dict \<Rightarrow> string list" where
  "required flds = map fst (filter (\<lambda>f. snd (snd f) = NotDefaultValue) flds)"






definition init_body_text :: "fields_dict \<Rightarrow> bool \<Rightarrow> string" where
  "init_body_text flds hook =
     (let init_body = init_body_loop ''object.__setattr__(self, \"{}\", {})'' (map fst flds) ''\<newline>''
      in if hook then init_body @ [CHR 0x09] @ ''self.__post_init__()'' else init_body)"


text \<open>
  The last three steps of \<open>_make_datacls\<close> (repr, eq, frozen) as one function on the
  store, and the attribute names that an augmentation writes.
\<close>

definition installed :: "nat \<Rightarrow> bool \<Rightarrow> bool \<Rightarrow> bool \<Rightarrow> heap \<Rightarrow> heap" where
  "installed cls repr eq frozen h3 =
     (let h4 = (if repr then create_and_add_repr cls h3 else h3);
          h5 = (if eq then create_and_add_eq cls h4 else h4)
      in if frozen then make_frozen cls h5 else h5)"

definition reserved :: "string list" where
  "reserved = [''_fields'', ''fields'', ''__init__'', ''__repr__'', ''__eq__'', ''__setattr__'']"

text \<open>
  Whether \<open>_make_datacls\<close> finds a post-construction hook: the truth value of
  \<open>getattr(cls, '__post_init__', False)\<close>.
\<close>

definition has_hook :: "pycls \<Rightarrow> bool" where
  "has_hook c = truthy (cls_getattr c ''__post_init__'' (Val (PBool False)))"






section \<open>Example classes\<close>

text \<open>
  The class of the source's own test block: two fields without defaults and a
  \<open>__post_init__\<close> that only prints, so that it leaves the instance as it is.
\<close>

definition TestUser :: pycls where
  "TestUser = \<lparr>cls_name = ''TestUser'', cls_module = [],
     annotations = [(''Name'', ''str''), (''Age'', ''int'')],
     namespace = [(''__post_init__'', Func (UserFn 0))]\<rparr>"

definition print_hook :: user_code where
  "print_hook n h self = Inr self"

definition antonio :: pyinst where
  "antonio = \<lparr>inst_cls = 0, inst_dict = [(''Name'', PStr ''Antonio''), (''Age'', PInt 23)]\<rparr>"



text \<open>A class whose only field has a default, and the default is the string \<open>'_NotDefaultValue'\<close>.\<close>

definition Greeting :: pycls where
  "Greeting = \<lparr>cls_name = ''Greeting'', cls_module = [],
     annotations = [(''word'', ''str'')],
     namespace = [(''word'', Val (PStr ''_NotDefaultValue''))]\<rparr>"

text \<open>
  A class with the fields of \<open>TestUser\<close> in the other order, a store in which both have
  been augmented, and some instances.
\<close>

definition Account :: pycls where
  "Account = \<lparr>cls_name = ''Account'', cls_module = [],
     annotations = [(''Age'', ''int''), (''Name'', ''str'')],
     namespace = []\<rparr>"

definition users :: heap where
  "users = snd (make_datacls 1 True True True False
                 (snd (make_datacls 0 True True True False ((\<lambda>_. TestUser)(1 := Account)))))"

definition antonio_account :: pyinst where
  "antonio_account = \<lparr>inst_cls = 1, inst_dict = [(''Age'', PInt 23), (''Name'', PStr ''Antonio'')]\<rparr>"

definition jeyson :: pyinst where
  "jeyson = \<lparr>inst_cls = 0, inst_dict = [(''Name'', PStr ''Jeyson''), (''Age'', PInt 49)]\<rparr>"




definition Empty :: pycls where
  "Empty = \<lparr>cls_name = ''Empty'', cls_module = [], annotations = [], namespace = []\<rparr>"

definition Form :: pycls where
  "Form = \<lparr>cls_name = ''Form'', cls_module = [],
     annotations = [(''fields'', ''int'')],
     namespace = []\<rparr>"

section \<open>Texts built by the program\<close>

lemma format_pair: "py_format ''{} = {}'' [a, b] = a @ '' = '' @ b"
  by simp

lemma format_single: "py_format (take (length ''{} = {}'' - 5) ''{} = {}'') [a] = a"
  by simp



lemma format_repr: "py_format ''{} = {}, '' [f, s] = f @ '' = '' @ s @ '', ''"
  by simp





lemma strip_prefix_append: "strip_prefix p (p @ r) = Some r"
  by (simp add: strip_prefix_def)




section \<open>Reading the generated text back\<close>


























section \<open>The store after an augmentation\<close>

lemma map_of_setitem: "map_of (setitem k v l) = (map_of l)(k \<mapsto> v)"
  by (induction l) auto

lemma fst_setitem: "fst ` set (setitem k v l) = insert k (fst ` set l)"
  by (induction l) auto

lemma distinct_setitem: "distinct (map fst l) \<Longrightarrow> distinct (map fst (setitem k v l))"
  by (induction l) (auto simp: fst_setitem)


lemma setitem_same: "map_of l k = Some v \<Longrightarrow> setitem k v l = l"
  by (induction l) (auto split: if_splits)

lemma namespace_setattr_cls:
  "map_of (namespace (setattr_cls cls name a h cls)) = (map_of (namespace (h cls)))(name \<mapsto> a)"
  by (simp add: setattr_cls_def cls_setattr_def map_of_setitem)


lemma setattr_cls_same: "map_of (namespace (h cls)) name = Some a \<Longrightarrow> setattr_cls cls name a h = h"
  by (simp add: setattr_cls_def cls_setattr_def setitem_same)

lemma setattr_cls_fields [simp]:
  "cls_module (setattr_cls cls name a h p) = cls_module (h p)"
  "annotations (setattr_cls cls name a h p) = annotations (h p)"
  "cls_name (setattr_cls cls name a h p) = cls_name (h p)"
  by (simp_all add: setattr_cls_def cls_setattr_def)

lemma create_fn_cong: "cls_module c = cls_module c' \<Longrightarrow> create_fn n s b c = create_fn n s b c'"
  by (simp add: create_fn_def)

lemma cls_fields_setattr:
  "name \<noteq> ''_fields'' \<Longrightarrow> cls_fields (setattr_cls cls name a h cls) = cls_fields (h cls)"
  by (simp add: cls_fields_def namespace_setattr_cls)

lemma create_and_add_init_char:
  "create_and_add_init post cls h =
     (case cls_fields (h cls) of
        Inl e \<Rightarrow> Inl e
      | Inr flds \<Rightarrow>
          (case create_fn ''__init__'' (create_func_signature ''__init__'' flds)
                  (init_body_text flds (truthy post)) (h cls) of
             Inl e \<Rightarrow> Inl e
           | Inr f \<Rightarrow> Inr (setattr_cls cls ''__init__'' (Func (InitFn f)) h)))"
  by (simp add: create_and_add_init_def init_body_text_def Let_def split: sum.splits)

lemma make_datacls_char:
  "make_datacls cls init repr eq frozen h =
     (let h2 = setattr_cls cls ''fields'' (Property ''_fields'')
                 (setattr_cls cls ''_fields'' (Fields (read_annotations (h cls))) h)
      in if init
         then (case create_and_add_init (cls_getattr (h2 cls) ''__post_init__'' (Val (PBool False))) cls h2 of
                 Inl e \<Rightarrow> (Inl e, h2)
               | Inr h3 \<Rightarrow> (Inr cls, installed cls repr eq frozen h3))
         else (Inr cls, installed cls repr eq frozen h2))"
  by (simp add: make_datacls_def installed_def Let_def create_property_def split: sum.splits)

lemma installed_idem:
  "installed cls repr eq frozen (installed cls repr eq frozen h) = installed cls repr eq frozen h"
  by (simp add: installed_def Let_def create_and_add_repr_def create_and_add_eq_def make_frozen_def
      setattr_cls_same namespace_setattr_cls)

lemma installed_lookup:
  "name \<notin> {''__repr__'', ''__eq__'', ''__setattr__''} \<Longrightarrow>
   map_of (namespace (installed cls repr eq frozen h cls)) name = map_of (namespace (h cls)) name"
  by (simp add: installed_def Let_def create_and_add_repr_def create_and_add_eq_def make_frozen_def
      namespace_setattr_cls)

lemma installed_fields [simp]:
  "cls_module (installed cls repr eq frozen h p) = cls_module (h p)"
  "annotations (installed cls repr eq frozen h p) = annotations (h p)"
  by (simp_all add: installed_def Let_def create_and_add_repr_def create_and_add_eq_def make_frozen_def)



lemma create_and_add_init_lookup:
  "create_and_add_init post cls h = Inr h3 \<Longrightarrow> name \<noteq> ''__init__'' \<Longrightarrow>
   map_of (namespace (h3 cls)) name = map_of (namespace (h cls)) name"
  by (auto simp: create_and_add_init_char namespace_setattr_cls split: sum.splits)



lemma make_datacls_registry:
  "map_of (namespace (snd (make_datacls cls init repr eq frozen h) cls)) ''_fields''
     = Some (Fields (read_annotations (h cls)))
   \<and> map_of (namespace (snd (make_datacls cls init repr eq frozen h) cls)) ''fields''
     = Some (Property ''_fields'')"
  by (auto simp: make_datacls_char Let_def installed_lookup create_and_add_init_lookup
      namespace_setattr_cls split: sum.splits)

lemma installed_frozen:
  "map_of (namespace (installed cls repr eq True h cls)) ''__setattr__'' = Some (Func SetattrFn)"
  by (simp add: installed_def Let_def make_frozen_def namespace_setattr_cls)

lemma installed_eq:
  "map_of (namespace (installed cls repr True frozen h cls)) ''__eq__'' = Some (Func EqFn)"
  by (simp add: installed_def Let_def make_frozen_def create_and_add_eq_def namespace_setattr_cls)

lemma make_datacls_frozen:
  assumes "fst (make_datacls cls init repr eq True h) = Inr c"
  shows "map_of (namespace (snd (make_datacls cls init repr eq True h) cls)) ''__setattr__'' = Some (Func SetattrFn)"
  using assms
  by (auto simp: make_datacls_char Let_def installed_frozen split: sum.splits if_splits)

lemma make_datacls_eq:
  assumes "fst (make_datacls cls init repr True frozen h) = Inr c"
  shows "map_of (namespace (snd (make_datacls cls init repr True frozen h) cls)) ''__eq__'' = Some (Func EqFn)"
  using assms
  by (auto simp: make_datacls_char Let_def installed_eq split: sum.splits if_splits)

lemma TestUser_frozen: "fst (make_datacls 0 True True True True (\<lambda>_. TestUser)) = Inr 0"
  by code_simp

section \<open>Freezing\<close>

text \<open>
  Claim C10. On a class augmented with \<open>frozen=True\<close>, every attribute assignment on an
  instance raises \<open>FrozenError\<close>, whatever the attribute name: also a name that is not a
  declared field, since \<open>_make_frozen\<close> replaces the \<open>__setattr__\<close> of the class and
  \<open>_setattr\<close> looks at neither the name nor the value.
\<close>

theorem frozen_rejects_every_name:
  assumes "fst (make_datacls cls init repr eq True h) = Inr c"
    and "inst_cls self = cls"
  shows "py_setattr (snd (make_datacls cls init repr eq True h)) self name v = Inl FrozenError"
  using make_datacls_frozen [OF assms(1)] assms(2)
  by (simp add: py_setattr_def datacls_setattr_def)

theorem frozen_rejects_every_name_witness:
  "fst (make_datacls 0 True True True True (\<lambda>_. TestUser)) = Inr 0
   \<and> inst_cls antonio = 0
   \<and> ''nickname'' \<notin> set (map fst (annotations TestUser))
   \<and> py_setattr (snd (make_datacls 0 True True True True (\<lambda>_. TestUser))) antonio ''nickname'' (PStr ''Tony'')
     = Inl FrozenError"
  using frozen_rejects_every_name [OF TestUser_frozen, of antonio "''nickname''" "PStr ''Tony''"]
    TestUser_frozen
  by (simp add: antonio_def TestUser_def)

section \<open>The two ways of calling \<open>datacls\<close>\<close>



section \<open>Equality\<close>



section \<open>The marker for a missing default\<close>

text \<open>
  Claim C6 at its failing input. \<open>Greeting\<close> declares \<open>word: str = '_NotDefaultValue'\<close>. The
  field has a default, yet the registry entry is equal to the marker, the signature lists
  \<open>word\<close> without a default, and \<open>Greeting()\<close> is a \<open>TypeError\<close> for the missing argument.
\<close>

theorem sentinel_collision:
  "map_of (namespace Greeting) ''word'' = Some (Val (PStr ''_NotDefaultValue''))
   \<and> required (read_annotations Greeting) = [''word'']
   \<and> create_func_signature ''__init__'' (read_annotations Greeting) = ''def __init__ (self, word):''
   \<and> fst (make_datacls 0 True True True False (\<lambda>_. Greeting)) = Inr 0
   \<and> construct print_hook (snd (make_datacls 0 True True True False (\<lambda>_. Greeting))) 0 [] [] = Inl TypeError"
  by code_simp

section \<open>The generated equality\<close>

lemma asdict_loop_distinct:
  "asdict_loop h self names acc = Inr d \<Longrightarrow> distinct (map fst acc) \<Longrightarrow> distinct (map fst d)"
  by (induction names arbitrary: acc) (auto split: sum.splits dest: distinct_setitem)

lemma asdict_distinct: "asdict h obj = Inr d \<Longrightarrow> distinct (map fst d)"
  by (cases obj) (auto split: sum.splits dest: asdict_loop_distinct)

lemma dict_eq_iff:
  assumes a: "distinct (map fst a)" and b: "distinct (map fst b)"
  shows "dict_eq a b \<longleftrightarrow>
     set (map fst a) = set (map fst b)
     \<and> (\<forall>k\<in>set (map fst a). \<exists>v w. map_of a k = Some v \<and> map_of b k = Some w \<and> py_eq v w)"
proof
  assume eq: "dict_eq a b"
  then have len: "length a = length b"
    and all: "\<And>k v. (k, v) \<in> set a \<Longrightarrow> \<exists>w. map_of b k = Some w \<and> py_eq v w"
    by (auto simp: dict_eq_def list_all_iff split: option.splits)
  have sub: "set (map fst a) \<subseteq> set (map fst b)"
  proof
    fix k assume "k \<in> set (map fst a)"
    then obtain v where "(k, v) \<in> set a" by auto
    from all [OF this] obtain w where "map_of b k = Some w" by blast
    then show "k \<in> set (map fst b)" by (auto dest: map_of_SomeD intro: rev_image_eqI)
  qed
  have "card (set (map fst a)) = card (set (map fst b))"
    using distinct_card [OF a] distinct_card [OF b] len by simp
  with sub have keys: "set (map fst a) = set (map fst b)"
    by (intro card_subset_eq) simp_all
  have "\<exists>v w. map_of a k = Some v \<and> map_of b k = Some w \<and> py_eq v w" if "k \<in> set (map fst a)" for k
  proof -
    from that obtain v where v: "(k, v) \<in> set a" by auto
    with a have "map_of a k = Some v" by simp
    with all [OF v] show ?thesis by blast
  qed
  with keys show "set (map fst a) = set (map fst b)
     \<and> (\<forall>k\<in>set (map fst a). \<exists>v w. map_of a k = Some v \<and> map_of b k = Some w \<and> py_eq v w)"
    by blast
next
  assume r: "set (map fst a) = set (map fst b)
     \<and> (\<forall>k\<in>set (map fst a). \<exists>v w. map_of a k = Some v \<and> map_of b k = Some w \<and> py_eq v w)"
  then have "card (set (map fst a)) = card (set (map fst b))" by simp
  with distinct_card [OF a] distinct_card [OF b] have len: "length a = length b" by simp
  have "case map_of b k of None \<Rightarrow> False | Some w \<Rightarrow> py_eq v w" if "(k, v) \<in> set a" for k v
  proof -
    from that a have "map_of a k = Some v" by simp
    moreover from that have "k \<in> set (map fst a)" by force
    ultimately show ?thesis using r by force
  qed
  with len show "dict_eq a b"
    by (auto simp: dict_eq_def list_all_iff)
qed

text \<open>
  Claim C3. With \<open>eq=True\<close> the \<open>__eq__\<close> of the class is \<open>_eq\<close>, and for two instances
  whose \<open>asdict\<close> views exist \<open>_eq\<close> returns true exactly when the views have the same set
  of keys and equal values under every key. The order of the keys plays no part.
\<close>

theorem generated_eq_compares_asdict:
  assumes "fst (make_datacls cls init repr True frozen h) = Inr c"
  shows "map_of (namespace (snd (make_datacls cls init repr True frozen h) cls)) ''__eq__'' = Some (Func EqFn)
     \<and> (\<forall>h' x y a b. asdict h' (Inst x) = Inr a \<longrightarrow> asdict h' (Inst y) = Inr b \<longrightarrow>
            datacls_eq h' x (Inst y) =
              Inr (set (map fst a) = set (map fst b)
                   \<and> (\<forall>k\<in>set (map fst a). \<exists>v w. map_of a k = Some v \<and> map_of b k = Some w \<and> py_eq v w)))"
proof -
  have "datacls_eq h' x (Inst y) =
      Inr (set (map fst a) = set (map fst b)
           \<and> (\<forall>k\<in>set (map fst a). \<exists>v w. map_of a k = Some v \<and> map_of b k = Some w \<and> py_eq v w))"
    if "asdict h' (Inst x) = Inr a" "asdict h' (Inst y) = Inr b" for h' x y a b
    using that dict_eq_iff [OF asdict_distinct [OF that(1)] asdict_distinct [OF that(2)]]
    by (simp add: datacls_eq_def)
  with make_datacls_eq [OF assms] show ?thesis by blast
qed

theorem generated_eq_compares_asdict_witness:
  "fst (make_datacls 0 True True True False ((\<lambda>_. TestUser)(1 := Account))) = Inr 0
   \<and> asdict users (Inst antonio) = Inr [(''Name'', Val (PStr ''Antonio'')), (''Age'', Val (PInt 23))]
   \<and> asdict users (Inst antonio_account) = Inr [(''Age'', Val (PInt 23)), (''Name'', Val (PStr ''Antonio''))]
   \<and> asdict users (Inst jeyson) = Inr [(''Name'', Val (PStr ''Jeyson'')), (''Age'', Val (PInt 49))]
   \<and> datacls_eq users antonio (Inst antonio_account) = Inr True
   \<and> datacls_eq users antonio (Inst jeyson) = Inr False"
proof -
  have aug: "fst (make_datacls 0 True True True False ((\<lambda>_. TestUser)(1 := Account))) = Inr 0"
    by code_simp
  have a: "asdict users (Inst antonio) = Inr [(''Name'', Val (PStr ''Antonio'')), (''Age'', Val (PInt 23))]"
    by code_simp
  have b: "asdict users (Inst antonio_account) = Inr [(''Age'', Val (PInt 23)), (''Name'', Val (PStr ''Antonio''))]"
    by code_simp
  have c: "asdict users (Inst jeyson) = Inr [(''Name'', Val (PStr ''Jeyson'')), (''Age'', Val (PInt 49))]"
    by code_simp
  from generated_eq_compares_asdict [OF aug]
  have char: "\<And>h' x y a b. asdict h' (Inst x) = Inr a \<Longrightarrow> asdict h' (Inst y) = Inr b \<Longrightarrow>
            datacls_eq h' x (Inst y) =
              Inr (set (map fst a) = set (map fst b)
                   \<and> (\<forall>k\<in>set (map fst a). \<exists>v w. map_of a k = Some v \<and> map_of b k = Some w \<and> py_eq v w))"
    by blast
  have 1: "datacls_eq users antonio (Inst antonio_account) = Inr True"
    using char [OF a b] by auto
  have 2: "datacls_eq users antonio (Inst jeyson) = Inr False"
    using char [OF a c] by auto
  show ?thesis using aug a b c 1 2 by simp
qed

section \<open>The registry and \<open>asdict\<close>\<close>




lemma read_annotations_loop_cong:
  "\<forall>n\<in>set (map fst anns). cls_getattr c n NotDefaultValue = cls_getattr c' n NotDefaultValue \<Longrightarrow>
   read_annotations_loop c anns acc = read_annotations_loop c' anns acc"
  by (induction anns arbitrary: acc) auto





section \<open>Augmenting twice\<close>

lemma set_reserved: "n \<notin> set reserved \<Longrightarrow>
   n \<noteq> ''_fields'' \<and> n \<noteq> ''fields'' \<and> n \<noteq> ''__init__'' \<and> n \<noteq> ''__repr__'' \<and> n \<noteq> ''__eq__'' \<and> n \<noteq> ''__setattr__''"
  by (auto simp: reserved_def)

lemma make_datacls_lookup:
  assumes "n \<notin> set reserved"
  shows "map_of (namespace (snd (make_datacls cls init repr eq frozen h) cls)) n = map_of (namespace (h cls)) n"
  using set_reserved [OF assms]
  by (auto simp: make_datacls_char Let_def installed_lookup create_and_add_init_lookup
      namespace_setattr_cls split: sum.splits)

lemma make_datacls_fields:
  "annotations (snd (make_datacls cls init repr eq frozen h) p) = annotations (h p)"
  "cls_module (snd (make_datacls cls init repr eq frozen h) p) = cls_module (h p)"
  by (auto simp: make_datacls_char Let_def create_and_add_init_char split: sum.splits)

lemma read_annotations_again:
  assumes "set (map fst (annotations (h cls))) \<inter> set reserved = {}"
  shows "read_annotations (snd (make_datacls cls init repr eq frozen h) cls) = read_annotations (h cls)"
proof -
  have "\<forall>n\<in>set (map fst (annotations (h cls))).
      cls_getattr (snd (make_datacls cls init repr eq frozen h) cls) n NotDefaultValue
        = cls_getattr (h cls) n NotDefaultValue"
  proof
    fix n assume "n \<in> set (map fst (annotations (h cls)))"
    with assms have "n \<notin> set reserved" by blast
    then show "cls_getattr (snd (make_datacls cls init repr eq frozen h) cls) n NotDefaultValue
        = cls_getattr (h cls) n NotDefaultValue"
      by (simp add: cls_getattr_def make_datacls_lookup)
  qed
  then show ?thesis
    unfolding read_annotations_def make_datacls_fields by (rule read_annotations_loop_cong)
qed

text \<open>
  Claim C9, as the code has it. When no declared field has one of the names that an
  augmentation writes on the class (\<open>_fields\<close>, \<open>fields\<close>, \<open>__init__\<close>, \<open>__repr__\<close>,
  \<open>__eq__\<close>, \<open>__setattr__\<close>), augmenting a second time with the same switches returns
  what the first augmentation returned and leaves the store as the first left it, so
  construction, equality, rendering and freezing behave as after one augmentation.
\<close>

theorem augmenting_twice:
  assumes "set (map fst (annotations (h cls))) \<inter> set reserved = {}"
  shows "make_datacls cls init repr eq frozen (snd (make_datacls cls init repr eq frozen h))
           = make_datacls cls init repr eq frozen h"
proof -
  define R where "R = read_annotations (h cls)"
  define h2 where "h2 = setattr_cls cls ''fields'' (Property ''_fields'') (setattr_cls cls ''_fields'' (Fields R) h)"
  define post where "post = cls_getattr (h2 cls) ''__post_init__'' (Val (PBool False))"
  define h' where "h' = snd (make_datacls cls init repr eq frozen h)"
  have R': "read_annotations (h' cls) = R"
    unfolding h'_def R_def using assms by (rule read_annotations_again)
  have reg: "map_of (namespace (h' cls)) ''_fields'' = Some (Fields R)"
       "map_of (namespace (h' cls)) ''fields'' = Some (Property ''_fields'')"
    using make_datacls_registry [of cls init repr eq frozen h] by (simp_all add: h'_def R_def)
  have same: "setattr_cls cls ''fields'' (Property ''_fields'') (setattr_cls cls ''_fields'' (Fields R) h') = h'"
    using reg by (simp add: setattr_cls_same)
  have pi: "''__post_init__'' \<notin> set reserved" by (simp add: reserved_def)
  have post': "cls_getattr (h' cls) ''__post_init__'' (Val (PBool False)) = post"
    unfolding post_def h2_def h'_def cls_getattr_def
    by (simp add: make_datacls_lookup [OF pi] namespace_setattr_cls)
  have first: "make_datacls cls init repr eq frozen h =
      (if init then (case create_and_add_init post cls h2 of
                 Inl e \<Rightarrow> (Inl e, h2)
               | Inr h3 \<Rightarrow> (Inr cls, installed cls repr eq frozen h3))
         else (Inr cls, installed cls repr eq frozen h2))"
    unfolding h2_def post_def R_def by (simp add: make_datacls_char Let_def)
  have second: "make_datacls cls init repr eq frozen h' =
      (if init then (case create_and_add_init post cls h' of
                 Inl e \<Rightarrow> (Inl e, h')
               | Inr h3 \<Rightarrow> (Inr cls, installed cls repr eq frozen h3))
         else (Inr cls, installed cls repr eq frozen h'))"
    unfolding make_datacls_char [of cls init repr eq frozen h'] Let_def R' same post' by simp
  show ?thesis
  proof (cases init)
    case False
    from first False have m1: "make_datacls cls init repr eq frozen h = (Inr cls, installed cls repr eq frozen h2)"
      by simp
    then have hh: "h' = installed cls repr eq frozen h2" unfolding h'_def by simp
    from second False have m2: "make_datacls cls init repr eq frozen h' = (Inr cls, installed cls repr eq frozen h')"
      by simp
    have "make_datacls cls init repr eq frozen h' = make_datacls cls init repr eq frozen h"
      unfolding m1 m2 unfolding hh by (simp add: installed_idem)
    then show ?thesis unfolding h'_def .
  next
    case True
    have cf2: "cls_fields (h2 cls) = Inr R"
      by (simp add: h2_def cls_fields_def namespace_setattr_cls)
    have cf': "cls_fields (h' cls) = Inr R"
      using reg by (simp add: cls_fields_def)
    have fn: "create_fn n s b (h' cls) = create_fn n s b (h2 cls)" for n s b
      by (rule create_fn_cong) (simp add: h'_def make_datacls_fields h2_def)
    show ?thesis
    proof (cases "create_fn ''__init__'' (create_func_signature ''__init__'' R)
                  (init_body_text R (truthy post)) (h2 cls)")
      case (Inl e)
      then have 1: "create_and_add_init post cls h2 = Inl e"
        by (simp add: create_and_add_init_char cf2)
      from first True 1 have m1: "make_datacls cls init repr eq frozen h = (Inl e, h2)" by simp
      then have hh: "h' = h2" unfolding h'_def by simp
      from Inl have 2: "create_and_add_init post cls h' = Inl e"
        by (simp add: create_and_add_init_char cf' fn)
      from second True 2 have m2: "make_datacls cls init repr eq frozen h' = (Inl e, h')" by simp
      have "make_datacls cls init repr eq frozen h' = make_datacls cls init repr eq frozen h"
        unfolding m1 m2 unfolding hh by simp
      then show ?thesis unfolding h'_def .
    next
      case (Inr f)
      define h3 where "h3 = setattr_cls cls ''__init__'' (Func (InitFn f)) h2"
      have 1: "create_and_add_init post cls h2 = Inr h3"
        using Inr by (simp add: create_and_add_init_char cf2 h3_def)
      from first True 1 have m1: "make_datacls cls init repr eq frozen h = (Inr cls, installed cls repr eq frozen h3)"
        by simp
      then have hh: "h' = installed cls repr eq frozen h3" unfolding h'_def by simp
      have "map_of (namespace (h' cls)) ''__init__'' = Some (Func (InitFn f))"
        unfolding hh by (simp add: installed_lookup h3_def namespace_setattr_cls)
      then have "setattr_cls cls ''__init__'' (Func (InitFn f)) h' = h'"
        by (rule setattr_cls_same)
      then have 2: "create_and_add_init post cls h' = Inr h'"
        using Inr by (simp add: create_and_add_init_char cf' fn)
      from second True 2 have m2: "make_datacls cls init repr eq frozen h' = (Inr cls, installed cls repr eq frozen h')"
        by simp
      have "make_datacls cls init repr eq frozen h' = make_datacls cls init repr eq frozen h"
        unfolding m1 m2 unfolding hh by (simp add: installed_idem)
      then show ?thesis unfolding h'_def .
    qed
  qed
qed

theorem augmenting_twice_witness:
  "set (map fst (annotations ((\<lambda>_. TestUser) (0::nat)))) \<inter> set reserved = {}
   \<and> make_datacls 0 True True True True (snd (make_datacls 0 True True True True (\<lambda>_. TestUser)))
       = make_datacls 0 True True True True (\<lambda>_. TestUser)"
proof -
  have "set (map fst (annotations ((\<lambda>_. TestUser) (0::nat)))) \<inter> set reserved = {}"
    by (simp add: TestUser_def reserved_def)
  with augmenting_twice [where h = "\<lambda>_. TestUser" and cls = 0, OF this, of True True True True]
  show ?thesis by simp
qed

text \<open>
  The claim as stated fails on a class with a field called \<open>fields\<close>: the first
  augmentation succeeds and installs the property \<open>fields\<close>; the second reads that
  property as the field's default, writes it into the signature, and \<open>exec\<close> raises
  \<open>SyntaxError\<close>.
\<close>

theorem augmenting_twice_counterexample:
  "set (map fst (annotations Form)) \<inter> set reserved \<noteq> {}
   \<and> fst (make_datacls 0 True True True False (\<lambda>_. Form)) = Inr 0
   \<and> fst (make_datacls 0 True True True False (snd (make_datacls 0 True True True False (\<lambda>_. Form))))
       = Inl SyntaxError"
  by code_simp

section \<open>The generated \<open>__init__\<close>\<close>












section \<open>Calling the generated \<open>__init__\<close>\<close>














section \<open>Required parameters before defaulted ones\<close>




section \<open>Construction of frozen instances\<close>



section \<open>A class without fields\<close>

text \<open>
  Claim C4 at its failing input. For a class with no fields and no \<open>__post_init__\<close> the
  generated text is the header \<open>def __init__ (self, ):\<close> followed by an empty body, which
  is not a function definition: \<open>exec\<close> raises a syntax error, \<open>_make_datacls\<close> raises with
  it, and the class is left without a generated \<open>__init__\<close>.
\<close>

theorem empty_class_initializer:
  "annotations Empty = [] \<and> map_of (namespace Empty) ''__post_init__'' = None
   \<and> create_func_signature ''__init__'' (read_annotations Empty)
       @ init_body_text (read_annotations Empty) (has_hook Empty) = ''def __init__ (self, ):\<newline>''
   \<and> fst (make_datacls 0 True True True False (\<lambda>_. Empty)) = Inl SyntaxError
   \<and> map_of (namespace (snd (make_datacls 0 True True True False (\<lambda>_. Empty)) 0)) ''__init__'' = None"
  by code_simp

end
